theory Spec2Isabelle
  imports Complex_Main
begin

section \<open>Numbers, errors and text\<close>

text \<open>
  The dashboard computes with Python floats. Every finite float is a rational number, and
  comparisons between floats are comparisons of those rationals, so a float is modelled
  as a \<^typ>\<open>rat\<close>. The literals \<open>2.5\<close> and \<open>1.5\<close> of the source are doubles
  exactly; \<open>29.53059\<close> is not, and the model takes the double it denotes. The result of
  rounding to one decimal is the double nearest to a multiple of one tenth and is modelled
  by that multiple, which is what it prints as. The mean is exact in the model. A
  \<open>null\<close> of the JSON payload, which is \<open>None\<close> in a Python list and \<open>NaN\<close> in a
  numeric pandas column, is \<open>None\<close> of an option type.

  Python text is modelled by its UTF-8 bytes: the Japanese labels of the source are the
  byte lists below, each named by its reading.
\<close>

datatype py_error = IndexError | TypeError

text \<open>\<open>round(x)\<close>: the nearest integer, a tie going to the even neighbour.\<close>

definition py_round :: "rat \<Rightarrow> int" where
  "py_round x =
     (let f = \<lfloor>x\<rfloor>; r = x - of_int f
      in if r < 1 / 2 then f
         else if 1 / 2 < r then f + 1
         else if even f then f else f + 1)"

text \<open>\<open>round(x, 1)\<close> and the pandas \<open>.round(1)\<close>: the nearest multiple of one tenth.\<close>

definition round_1 :: "rat \<Rightarrow> rat" where
  "round_1 x = of_int (py_round (x * 10)) / 10"

text \<open>
  \<open>x % y\<close> on floats takes the sign of the divisor: for \<open>y > 0\<close> the result is
  \<open>x - floor(x / y) * y\<close>.
\<close>

definition float_mod :: "rat \<Rightarrow> rat \<Rightarrow> rat" where
  "float_mod x y = x - of_int \<lfloor>x / y\<rfloor> * y"

text \<open>
  The literal \<open>29.53059\<close> of the source is not the decimal fraction: it denotes the
  double nearest to it, a multiple of \<open>1 / 2 ^ 48\<close>. The remainder of a whole number of days
  by this double is exact in floating point, so the code's \<open>%\<close> is \<open>float_mod\<close> at this
  constant.
\<close>

definition float_29_53059 :: rat where
  "float_29_53059 = 8312122132501931 / 2 ^ 48"

text \<open>The decimal digits of a natural number, as \<open>str\<close> writes them.\<close>

fun show_nat :: "nat \<Rightarrow> string" where
  "show_nat n =
     (if n < 10 then [''0123456789'' ! n]
      else show_nat (n div 10) @ [''0123456789'' ! (n mod 10)])"

declare show_nat.simps [simp del]

text \<open>\<open>f"{p}"\<close> for an integer \<open>p\<close>.\<close>

definition show_int :: "int \<Rightarrow> string" where
  "show_int i = (if i < 0 then ''-'' @ show_nat (nat (- i)) else show_nat (nat i))"

text \<open>
  The number a string of decimal digits denotes; it is used to say what \<open>show_nat\<close>
  prints.
\<close>

definition decimal_value :: "string \<Rightarrow> nat" where
  "decimal_value s = foldl (\<lambda>a c. 10 * a + (of_char c - 48)) 0 s"

text \<open>\<open>f"{x:.1f}"\<close>: the sign, the integer part, a point and one digit.\<close>

definition format_1f :: "rat \<Rightarrow> string" where
  "format_1f x =
     (let n = nat (py_round (\<bar>x\<bar> * 10))
      in (if x < 0 then ''-'' else '''') @ show_nat (n div 10) @ ''.'' @ show_nat (n mod 10))"

text \<open>\<open>sep.join(parts)\<close>.\<close>

fun join :: "string \<Rightarrow> string list \<Rightarrow> string" where
  "join sep [] = ''''"
| "join sep [s] = s"
| "join sep (s # t # ss) = s @ sep @ join sep (t # ss)"

subsection \<open>The labels of the source\<close>

text \<open>
  Tide names: \<open>ooshio\<close> is the spring tide, \<open>nakashio\<close> the mid tide, \<open>koshio\<close> the
  neap tide and \<open>nagashio_wakashio\<close> the slack tide (two names joined by a slash).
\<close>

definition ooshio :: string where
  "ooshio =
     [CHR 0xE5, CHR 0xA4, CHR 0xA7, CHR 0xE6, CHR 0xBD, CHR 0xAE]"

definition nakashio :: string where
  "nakashio =
     [CHR 0xE4, CHR 0xB8, CHR 0xAD, CHR 0xE6, CHR 0xBD, CHR 0xAE]"

definition koshio :: string where
  "koshio =
     [CHR 0xE5, CHR 0xB0, CHR 0x8F, CHR 0xE6, CHR 0xBD, CHR 0xAE]"

definition nagashio_wakashio :: string where
  "nagashio_wakashio =
     [CHR 0xE9, CHR 0x95, CHR 0xB7, CHR 0xE6, CHR 0xBD, CHR 0xAE, CHR 0x2F, CHR 0xE8,
      CHR 0x8B, CHR 0xA5, CHR 0xE6, CHR 0xBD, CHR 0xAE]"

text \<open>
  Sea states: \<open>fumei\<close> is "unknown", \<open>shike\<close> "rough", \<open>chuui\<close> "caution" and
  \<open>nagi\<close> "calm".
\<close>

definition fumei :: string where
  "fumei =
     [CHR 0xE4, CHR 0xB8, CHR 0x8D, CHR 0xE6, CHR 0x98, CHR 0x8E]"

definition shike :: string where
  "shike =
     [CHR 0xE6, CHR 0x99, CHR 0x82, CHR 0xE5, CHR 0x8C, CHR 0x96]"

definition chuui :: string where
  "chuui =
     [CHR 0xE6, CHR 0xB3, CHR 0xA8, CHR 0xE6, CHR 0x84, CHR 0x8F]"

definition nagi :: string where
  "nagi =
     [CHR 0xE5, CHR 0x87, CHR 0xAA]"

text \<open>
  Demand advisory: \<open>data_nashi\<close> is "no data", \<open>tokuni_nashi\<close> "nothing notable",
  \<open>kion_teika_nabe\<close> "temperature drop (hot pot)"; the rain reason is \<open>ame\<close> ("rain"),
  the percentage, and \<open>kyakuashi_suffix\<close>, a percent sign and "(foot traffic)".
\<close>

definition data_nashi :: string where
  "data_nashi =
     [CHR 0xE3, CHR 0x83, CHR 0x87, CHR 0xE3, CHR 0x83, CHR 0xBC, CHR 0xE3, CHR 0x82,
      CHR 0xBF, CHR 0xE3, CHR 0x81, CHR 0xAA, CHR 0xE3, CHR 0x81, CHR 0x97]"

definition tokuni_nashi :: string where
  "tokuni_nashi =
     [CHR 0xE7, CHR 0x89, CHR 0xB9, CHR 0xE3, CHR 0x81, CHR 0xAB, CHR 0xE3, CHR 0x81,
      CHR 0xAA, CHR 0xE3, CHR 0x81, CHR 0x97]"

definition kion_teika_nabe :: string where
  "kion_teika_nabe =
     [CHR 0xE6, CHR 0xB0, CHR 0x97, CHR 0xE6, CHR 0xB8, CHR 0xA9, CHR 0xE4, CHR 0xBD,
      CHR 0x8E, CHR 0xE4, CHR 0xB8, CHR 0x8B, CHR 0x28, CHR 0xE9, CHR 0x8D, CHR 0x8B,
      CHR 0x29]"

definition ame :: string where
  "ame =
     [CHR 0xE9, CHR 0x9B, CHR 0xA8]"

definition kyakuashi_suffix :: string where
  "kyakuashi_suffix =
     [CHR 0x25, CHR 0x28, CHR 0xE5, CHR 0xAE, CHR 0xA2, CHR 0xE8, CHR 0xB6, CHR 0xB3,
      CHR 0x29]"

text \<open>
  Matrix cells: \<open>getsurei\<close> is "moon age" and \<open>shutoku_shippai\<close> "fetch failed".
\<close>

definition getsurei :: string where
  "getsurei =
     [CHR 0xE6, CHR 0x9C, CHR 0x88, CHR 0xE9, CHR 0xBD, CHR 0xA2]"

definition shutoku_shippai :: string where
  "shutoku_shippai =
     [CHR 0xE5, CHR 0x8F, CHR 0x96, CHR 0xE5, CHR 0xBE, CHR 0x97, CHR 0xE5, CHR 0xA4,
      CHR 0xB1, CHR 0xE6, CHR 0x95, CHR 0x97]"

text \<open>
  The three banner templates of the 24 hour wind summary: a red circle and "next 24 hours:
  at most ... m/s, strong wind forecast", a yellow circle and "... m/s, some wind", a blue
  circle and "the next 24 hours are calm".
\<close>

definition kyofu_prefix :: string where
  "kyofu_prefix =
     [CHR 0xF0, CHR 0x9F, CHR 0x94, CHR 0xB4, CHR 0x20, CHR 0xE4, CHR 0xBB, CHR 0x8A,
      CHR 0xE5, CHR 0xBE, CHR 0x8C, CHR 0x32, CHR 0x34, CHR 0xE6, CHR 0x99, CHR 0x82,
      CHR 0xE9, CHR 0x96, CHR 0x93, CHR 0x3A, CHR 0x20, CHR 0xE6, CHR 0x9C, CHR 0x80,
      CHR 0xE5, CHR 0xA4, CHR 0xA7]"

definition kyofu_suffix :: string where
  "kyofu_suffix =
     [CHR 0x6D, CHR 0x2F, CHR 0x73, CHR 0x20, CHR 0xE3, CHR 0x81, CHR 0xAE, CHR 0xE5,
      CHR 0xBC, CHR 0xB7, CHR 0xE9, CHR 0xA2, CHR 0xA8, CHR 0xE4, CHR 0xBA, CHR 0x88,
      CHR 0xE5, CHR 0xA0, CHR 0xB1]"

definition kaze_ari_prefix :: string where
  "kaze_ari_prefix =
     [CHR 0xF0, CHR 0x9F, CHR 0x9F, CHR 0xA1, CHR 0x20, CHR 0xE4, CHR 0xBB, CHR 0x8A,
      CHR 0xE5, CHR 0xBE, CHR 0x8C, CHR 0x32, CHR 0x34, CHR 0xE6, CHR 0x99, CHR 0x82,
      CHR 0xE9, CHR 0x96, CHR 0x93, CHR 0x3A, CHR 0x20, CHR 0xE6, CHR 0x9C, CHR 0x80,
      CHR 0xE5, CHR 0xA4, CHR 0xA7]"

definition kaze_ari_suffix :: string where
  "kaze_ari_suffix =
     [CHR 0x6D, CHR 0x2F, CHR 0x73, CHR 0x20, CHR 0xE3, CHR 0x81, CHR 0xAE, CHR 0xE9,
      CHR 0xA2, CHR 0xA8, CHR 0xE3, CHR 0x81, CHR 0x82, CHR 0xE3, CHR 0x82, CHR 0x8A]"

definition odayaka :: string where
  "odayaka =
     [CHR 0xF0, CHR 0x9F, CHR 0x94, CHR 0xB5, CHR 0x20, CHR 0xE4, CHR 0xBB, CHR 0x8A,
      CHR 0xE5, CHR 0xBE, CHR 0x8C, CHR 0x32, CHR 0x34, CHR 0xE6, CHR 0x99, CHR 0x82,
      CHR 0xE9, CHR 0x96, CHR 0x93, CHR 0xE3, CHR 0x81, CHR 0xAF, CHR 0xE7, CHR 0xA9,
      CHR 0x8F, CHR 0xE3, CHR 0x82, CHR 0x84, CHR 0xE3, CHR 0x81, CHR 0x8B]"

section \<open>Calendar dates\<close>

text \<open>
  A \<open>datetime.date\<close> with the standard library's proleptic Gregorian day count
  (\<open>toordinal\<close>: 0001-01-01 is day 1); \<open>(a - b).days\<close> is the difference of the
  ordinals. Python only builds dates with a month in \<open>1..12\<close>.
\<close>

record date =
  year :: int
  month :: int
  day :: int

definition is_leap :: "int \<Rightarrow> bool" where
  "is_leap y = (if y mod 400 = 0 then True else if y mod 100 = 0 then False else y mod 4 = 0)"

definition days_before_year :: "int \<Rightarrow> int" where
  "days_before_year y = (y - 1) * 365 + (y - 1) div 4 - (y - 1) div 100 + (y - 1) div 400"

definition DAYS_BEFORE_MONTH :: "int list" where
  "DAYS_BEFORE_MONTH = [0, 31, 59, 90, 120, 151, 181, 212, 243, 273, 304, 334]"

definition days_before_month :: "int \<Rightarrow> int \<Rightarrow> int" where
  "days_before_month y m =
     DAYS_BEFORE_MONTH ! nat (m - 1) + (if 2 < m \<and> is_leap y then 1 else 0)"

definition toordinal :: "date \<Rightarrow> int" where
  "toordinal d = days_before_year (year d) + days_before_month (year d) (month d) + day d"

section \<open>Moon age and tide name\<close>

definition known_new_moon :: date where
  "known_new_moon = \<lparr>year = 2000, month = 1, day = 6\<rparr>"

definition calculate_moon_age :: "date \<Rightarrow> rat" where
  "calculate_moon_age d =
     (let days_diff = toordinal d - toordinal known_new_moon;
          moon_age = float_mod (of_int days_diff) float_29_53059
      in round_1 moon_age)"

definition get_tide_name :: "rat \<Rightarrow> string" where
  "get_tide_name moon_age =
     (let ma = py_round moon_age
      in if ma \<in> set [0, 1, 2, 14, 15, 16, 29, 30] then ooshio
         else if ma \<in> set [3, 4, 5, 17, 18, 19] then nakashio
         else if ma \<in> set [6, 7, 8, 9, 20, 21, 22, 23] then koshio
         else if ma \<in> set [10, 11, 12, 24, 25, 26] then nagashio_wakashio
         else nakashio)"

text \<open>
  The tide phase as the specification words it: four named phases, chosen by membership
  of the integer moon age in fixed bucket sets, with mid-tide as the fallback.
\<close>

datatype tide_phase = SpringTide | MidTide | NeapTide | SlackTide

definition tidePhase :: "int \<Rightarrow> tide_phase" where
  "tidePhase m =
     (if m \<in> {0, 1, 2, 14, 15, 16, 29, 30} then SpringTide
      else if m \<in> {3, 4, 5, 17, 18, 19} then MidTide
      else if m \<in> {6, 7, 8, 9, 20, 21, 22, 23} then NeapTide
      else if m \<in> {10, 11, 12, 24, 25, 26} then SlackTide
      else MidTide)"

fun tide_label :: "tide_phase \<Rightarrow> string" where
  "tide_label SpringTide = ooshio"
| "tide_label MidTide = nakashio"
| "tide_label NeapTide = koshio"
| "tide_label SlackTide = nagashio_wakashio"

section \<open>Wave status\<close>

definition get_wave_status_text :: "rat option \<Rightarrow> string" where
  "get_wave_status_text wave_height =
     (case wave_height of
        None \<Rightarrow> fumei
      | Some w \<Rightarrow> if 2.5 \<le> w then shike else if 1.5 \<le> w then chuui else nagi)"

text \<open>The classifier as the specification words it, with the label of each state.\<close>

datatype wave_status = UNKNOWN | ROUGH | CAUTION | CALM

definition waveStatus :: "rat option \<Rightarrow> wave_status" where
  "waveStatus avgWaveHeight =
     (case avgWaveHeight of
        None \<Rightarrow> UNKNOWN
      | Some h \<Rightarrow> if 2.5 \<le> h then ROUGH else if 1.5 \<le> h \<and> h < 2.5 then CAUTION else CALM)"

fun wave_label :: "wave_status \<Rightarrow> string" where
  "wave_label UNKNOWN = fumei"
| "wave_label ROUGH = shike"
| "wave_label CAUTION = chuui"
| "wave_label CALM = nagi"

section \<open>Demand prediction\<close>

text \<open>
  The \<open>daily\<close> block of the weather payload: three columns, one entry per day. The dates
  stay the strings the payload carries (\<open>YYYY-MM-DD\<close>), since the source compares them as
  strings; a cell of a value column may be \<open>null\<close>. The precipitation probability is the
  integer percentage of the payload.
\<close>

record daily_series =
  daily_time :: "string list"
  temperature_2m_max :: "rat option list"
  precipitation_probability_max :: "int option list"

text \<open>
  The weather payload is a dictionary that may lack its \<open>daily\<close> key; the hourly block
  is a table of rows, a timestamp and a wind speed each (see the wind forecast below).
\<close>

record weather_data =
  weather_hourly :: "(int \<times> rat option) list"
  weather_daily :: "daily_series option"

text \<open>\<open>xs[i]\<close> for an index that is not negative.\<close>

definition index :: "'a list \<Rightarrow> nat \<Rightarrow> py_error + 'a" where
  "index xs i = (if i < length xs then Inr (xs ! i) else Inl IndexError)"

text \<open>
  The search loop over \<open>enumerate(daily_data['time'])\<close>: the position of the first entry
  equal to today's date string, and \<open>-1\<close> when the loop ends without a \<open>break\<close>.
\<close>

fun today_index_loop :: "nat \<Rightarrow> string \<Rightarrow> string list \<Rightarrow> int" where
  "today_index_loop i today_str [] = - 1"
| "today_index_loop i today_str (date_str # rest) =
     (if date_str = today_str then int i else today_index_loop (Suc i) today_str rest)"

text \<open>
  The body of \<open>if today_index != -1\<close>: the reasons appended for the day at that index.
  Comparing a \<open>null\<close> cell with a number raises \<open>TypeError\<close>.
\<close>

definition todays_recommendation :: "daily_series \<Rightarrow> nat \<Rightarrow> py_error + string list" where
  "todays_recommendation daily_data today_index =
     (case index (temperature_2m_max daily_data) today_index of
        Inl e \<Rightarrow> Inl e
      | Inr None \<Rightarrow> Inl TypeError
      | Inr (Some temp_today_max) \<Rightarrow>
          (let r1 = (if temp_today_max < 10 then [kion_teika_nabe] else [])
           in case index (precipitation_probability_max daily_data) today_index of
                Inl e \<Rightarrow> Inl e
              | Inr None \<Rightarrow> Inl TypeError
              | Inr (Some precip_prob) \<Rightarrow>
                  Inr (r1 @ (if 50 \<le> precip_prob
                             then [ame @ show_int precip_prob @ kyakuashi_suffix] else []))))"

text \<open>
  \<open>get_tokyo_demand_prediction\<close>, with the date string of \<open>datetime.now()\<close> as the
  argument \<open>today_str\<close>. The payload is \<open>None\<close> after a failed fetch.
\<close>

definition get_tokyo_demand_prediction :: "string \<Rightarrow> weather_data option \<Rightarrow> py_error + string" where
  "get_tokyo_demand_prediction today_str tokyo_weather_data =
     (case tokyo_weather_data of
        None \<Rightarrow> Inr data_nashi
      | Some w \<Rightarrow>
          (case weather_daily w of
             None \<Rightarrow> Inr data_nashi
           | Some daily_data \<Rightarrow>
               (let today_index = today_index_loop 0 today_str (daily_time daily_data)
                in case (if today_index \<noteq> - 1
                         then todays_recommendation daily_data (nat today_index)
                         else Inr [])
                   of Inl e \<Rightarrow> Inl e
                    | Inr recommendation \<Rightarrow>
                        if recommendation \<noteq> [] then Inr (join '' / '' recommendation)
                        else Inr tokuni_nashi)))"

section \<open>The sea-state matrix\<close>

text \<open>
  The \<open>hourly\<close> block of a marine payload: the timestamps as \<open>datetime.fromisoformat\<close>
  parses them, and the wave heights, which may be \<open>null\<close>. The payload may lack the block.
\<close>

record datetime =
  dt_date :: date
  dt_hour :: nat
  dt_minute :: nat

record marine_hourly =
  hourly_time :: "datetime list"
  wave_height :: "rat option list"

record marine_data =
  marine_hourly :: "marine_hourly option"

definition current_day_indices :: "datetime list \<Rightarrow> date \<Rightarrow> nat list" where
  "current_day_indices time d = [j \<leftarrow> [0..<length time]. dt_date (time ! j) = d]"

text \<open>The comprehension that keeps the wave heights which are not \<open>None\<close>.\<close>

fun daily_waves :: "rat option list \<Rightarrow> nat list \<Rightarrow> py_error + rat list" where
  "daily_waves heights [] = Inr []"
| "daily_waves heights (j # js) =
     (case index heights j of
        Inl e \<Rightarrow> Inl e
      | Inr v \<Rightarrow>
          (case daily_waves heights js of
             Inl e \<Rightarrow> Inl e
           | Inr ws \<Rightarrow> Inr (case v of None \<Rightarrow> ws | Some w \<Rightarrow> w # ws)))"

text \<open>\<open>np.mean\<close> of a list that is not empty.\<close>

definition mean :: "rat list \<Rightarrow> rat" where
  "mean xs = sum_list xs / of_nat (length xs)"

text \<open>
  The three branches of one cell of the matrix, before the text is written: no sample of
  that date, samples but no value, or the mean of the values.
\<close>

datatype day_waves = NoSamples | NoValues | AvgWave rat

definition day_avg_wave :: "marine_hourly \<Rightarrow> date \<Rightarrow> py_error + day_waves" where
  "day_avg_wave h d =
     (let idx = current_day_indices (hourly_time h) d
      in if idx \<noteq> [] then
           (case daily_waves (wave_height h) idx of
              Inl e \<Rightarrow> Inl e
            | Inr ws \<Rightarrow> if ws \<noteq> [] then Inr (AvgWave (mean ws)) else Inr NoValues)
         else Inr NoSamples)"

definition cell_text :: "date \<Rightarrow> day_waves \<Rightarrow> string" where
  "cell_text d c =
     (case c of
        AvgWave avg_wave \<Rightarrow>
          (let status_text = get_wave_status_text (Some avg_wave);
               moon_age_val = calculate_moon_age d;
               tide_name = get_tide_name moon_age_val
           in status_text @ '' '' @ format_1f avg_wave @ ''m ('' @ tide_name @ '', ''
              @ getsurei @ format_1f moon_age_val @ '')'')
      | NoValues \<Rightarrow> data_nashi
      | NoSamples \<Rightarrow> ''-'')"

definition day_cell :: "marine_hourly \<Rightarrow> date \<Rightarrow> py_error + string" where
  "day_cell h d = (case day_avg_wave h d of Inl e \<Rightarrow> Inl e | Inr c \<Rightarrow> Inr (cell_text d c))"

text \<open>The cells of a row are computed one after the other; the first error ends the run.\<close>

fun cells :: "marine_hourly \<Rightarrow> date list \<Rightarrow> py_error + string list" where
  "cells h [] = Inr []"
| "cells h (d # ds) =
     (case day_cell h d of
        Inl e \<Rightarrow> Inl e
      | Inr c \<Rightarrow> (case cells h ds of Inl e \<Rightarrow> Inl e | Inr cs \<Rightarrow> Inr (c # cs)))"

text \<open>
  One row of the matrix: the cells of a location for the dates of the columns, in the
  order of the columns. The payload is \<open>None\<close> after a failed fetch.
\<close>

definition matrix_row :: "marine_data option \<Rightarrow> date list \<Rightarrow> py_error + string list" where
  "matrix_row marine dates =
     (case marine of
        None \<Rightarrow> Inr (map (\<lambda>d. shutoku_shippai) dates)
      | Some m \<Rightarrow>
          (case marine_hourly m of
             None \<Rightarrow> Inr (map (\<lambda>d. shutoku_shippai) dates)
           | Some h \<Rightarrow> cells h dates))"

section \<open>Wind forecast\<close>





text \<open>The style of a cell; any comparison with \<open>NaN\<close> is false.\<close>

definition highlight_wind :: "rat option \<Rightarrow> string" where
  "highlight_wind val =
     (case val of
        None \<Rightarrow> []
      | Some v \<Rightarrow>
          if 10 \<le> v then ''background-color: #ffcccc''
          else if 5 \<le> v then ''background-color: #ffffcc''
          else [])"

text \<open>
  The summary banner: which of \<open>st.error\<close>, \<open>st.warning\<close> and \<open>st.success\<close> is called,
  and with which text.
\<close>

datatype banner = St_error string | St_warning string | St_success string

definition wind_banner :: "rat option \<Rightarrow> banner" where
  "wind_banner m =
     (case m of
        None \<Rightarrow> St_success odayaka
      | Some v \<Rightarrow>
          if 10 \<le> v then St_error (kyofu_prefix @ format_1f v @ kyofu_suffix)
          else if 5 \<le> v then St_warning (kaze_ari_prefix @ format_1f v @ kaze_ari_suffix)
          else St_success odayaka)"


text \<open>
  The risk band as the specification words it, and the band each style and each kind of
  banner stands for.
\<close>

datatype wind_risk = HIGH | MODERATE | LOW

definition windRisk :: "rat \<Rightarrow> wind_risk" where
  "windRisk speedMs =
     (if 10 \<le> speedMs then HIGH else if 5 \<le> speedMs \<and> speedMs < 10 then MODERATE else LOW)"

fun risk_style :: "wind_risk \<Rightarrow> string" where
  "risk_style HIGH = ''background-color: #ffcccc''"
| "risk_style MODERATE = ''background-color: #ffffcc''"
| "risk_style LOW = []"

fun banner_risk :: "banner \<Rightarrow> wind_risk" where
  "banner_risk (St_error s) = HIGH"
| "banner_risk (St_warning s) = MODERATE"
| "banner_risk (St_success s) = LOW"

section \<open>Properties\<close>

subsection \<open>Rounding and remainders\<close>

lemma py_round_of_int: "py_round (of_int m) = m" by (simp add: py_round_def)
lemma py_round_bounds: "x - 1/2 \<le> of_int (py_round x) \<and> of_int (py_round x) \<le> x + 1/2"
  unfolding py_round_def Let_def by (auto; linarith)
lemma float_mod_range: 
  assumes "0 < y" shows "0 \<le> float_mod x y \<and> float_mod x y < y"
proof -
  have a: "of_int \<lfloor>x / y\<rfloor> \<le> x / y" by simp
  have b: "x / y < of_int \<lfloor>x / y\<rfloor> + 1" by linarith
  have "of_int \<lfloor>x / y\<rfloor> * y \<le> x" 
    by (rule iffD1 [OF pos_le_divide_eq [OF assms] a])
  moreover have "x < (of_int \<lfloor>x / y\<rfloor> + 1) * y" 
    by (rule iffD1 [OF pos_divide_less_eq [OF assms] b])
  ultimately show ?thesis unfolding float_mod_def by (simp add: algebra_simps)
qed

lemma py_round_numeral: "py_round (numeral n) = numeral n"
  using py_round_of_int [of "numeral n"] by simp

lemma format_1f_examples:
  "format_1f 1 = ''1.0''" "format_1f 2 = ''2.0''" "format_1f 6.2 = ''6.2''" "format_1f 10 = ''10.0''"
  by (simp_all add: format_1f_def py_round_numeral show_nat.simps)

subsection \<open>Moon age\<close>

lemma toordinal_known_new_moon: "toordinal known_new_moon = 730125"
  by (simp add: toordinal_def known_new_moon_def days_before_year_def days_before_month_def
      DAYS_BEFORE_MONTH_def)

lemma round_1_tenths: "\<exists>k. round_1 x = of_int k / 10"
  unfolding round_1_def by blast

lemma round_1_near: "\<bar>round_1 x - x\<bar> \<le> 1 / 20"
proof -
  have "round_1 x * 10 = of_int (py_round (x * 10))" unfolding round_1_def by simp
  with py_round_bounds [of "x * 10"] show ?thesis by linarith
qed

lemma py_round_eqI:
  assumes "of_int k - 1 / 2 < x" and "x < of_int k + 1 / 2"
  shows "py_round x = k"
proof -
  have "x - 1 / 2 \<le> of_int (py_round x) \<and> of_int (py_round x) \<le> x + 1 / 2"
    by (rule py_round_bounds)
  with assms have "(of_int k :: rat) - 1 < of_int (py_round x) \<and> (of_int (py_round x) :: rat) < of_int k + 1"
    by linarith
  then have "k - 1 < py_round x \<and> py_round x < k + 1" by linarith
  then show ?thesis by linarith
qed

lemma float_mod_eqI:
  assumes "0 \<le> r" and "r < y" and "x = of_int q * y + r"
  shows "float_mod x y = r"
proof -
  have y: "0 < y" using assms by linarith
  have "x / y = of_int q + r / y" using y assms(3) by (simp add: field_simps)
  moreover have "0 \<le> r / y \<and> r / y < 1" using y assms by simp
  ultimately have "\<lfloor>x / y\<rfloor> = q" by (simp add: floor_eq_iff)
  then show ?thesis using assms(3) by (simp add: float_mod_def)
qed

lemma float_29_53059_pos: "0 < float_29_53059"
  by (simp add: float_29_53059_def)

lemma float_29_53059_near: "\<bar>float_29_53059 - 29.53059\<bar> < 1 / 2 ^ 49"
  by (simp add: float_29_53059_def)

lemma float_29_53059_bounds: "29.5 < float_29_53059 \<and> float_29_53059 < 29.55"
  by (simp add: float_29_53059_def)

lemma float_mod_decompose:
  assumes "0 < y"
  shows "x = of_int \<lfloor>x / y\<rfloor> * y + float_mod x y"
  by (simp add: float_mod_def)

lemma round_1_range_29:
  assumes "0 \<le> x" and "x < 29.55"
  shows "0 \<le> round_1 x \<and> round_1 x \<le> 29.5"
proof -
  have b: "x * 10 - 1/2 \<le> of_int (py_round (x * 10)) \<and> of_int (py_round (x * 10)) \<le> x * 10 + 1/2"
    by (rule py_round_bounds)
  from b assms have "(-1 :: rat) < of_int (py_round (x * 10))" by linarith
  then have lo: "0 \<le> py_round (x * 10)" by linarith
  from b assms have "of_int (py_round (x * 10)) < (296 :: rat)" by simp
  then have hi: "py_round (x * 10) \<le> 295" by linarith
  from lo have "0 \<le> round_1 x" unfolding round_1_def by simp
  moreover from hi have "(of_int (py_round (x * 10)) :: rat) \<le> 295" by linarith
  then have "round_1 x \<le> 29.5" unfolding round_1_def by simp
  ultimately show ?thesis by simp
qed

lemma moon_age_eval:
  assumes n: "toordinal d - 730125 = n"
    and lo: "0 \<le> rat_of_int n - of_int q * float_29_53059"
    and hi: "rat_of_int n - of_int q * float_29_53059 < float_29_53059"
    and klo: "of_int k - 1 / 2 < (rat_of_int n - of_int q * float_29_53059) * 10"
    and khi: "(rat_of_int n - of_int q * float_29_53059) * 10 < of_int k + 1 / 2"
  shows "calculate_moon_age d = of_int k / 10"
proof -
  let ?r = "rat_of_int n - of_int q * float_29_53059"
  have "float_mod (of_int n) float_29_53059 = ?r"
    by (rule float_mod_eqI [where q = q]) (use lo hi in simp_all)
  moreover have "py_round (?r * 10) = k"
    using klo khi by (rule py_round_eqI)
  ultimately show ?thesis
    by (simp add: calculate_moon_age_def toordinal_known_new_moon n round_1_def)
qed

lemma toordinal_eval:
  "toordinal \<lparr>year = 2000, month = 1, day = 5\<rparr> = 730124"
  "toordinal \<lparr>year = 2000, month = 1, day = 6\<rparr> = 730125"
  "toordinal \<lparr>year = 2000, month = 1, day = 7\<rparr> = 730126"
  "toordinal \<lparr>year = 2000, month = 2, day = 5\<rparr> = 730155"
  "toordinal \<lparr>year = 1999, month = 12, day = 7\<rparr> = 730095"
  "toordinal \<lparr>year = 3212, month = 10, day = 17\<rparr> = 1173084"
  by (simp_all add: toordinal_def days_before_year_def days_before_month_def
      DAYS_BEFORE_MONTH_def is_leap_def)

lemma moon_age_examples:
  "calculate_moon_age \<lparr>year = 2000, month = 1, day = 5\<rparr> = 28.5"
  "calculate_moon_age \<lparr>year = 2000, month = 1, day = 6\<rparr> = 0"
  "calculate_moon_age \<lparr>year = 2000, month = 1, day = 7\<rparr> = 1"
  "calculate_moon_age \<lparr>year = 2000, month = 2, day = 5\<rparr> = 0.5"
  "calculate_moon_age \<lparr>year = 1999, month = 12, day = 7\<rparr> = 29.1"
  "calculate_moon_age \<lparr>year = 3212, month = 10, day = 17\<rparr> = 0.1"
proof -
  show "calculate_moon_age \<lparr>year = 2000, month = 1, day = 5\<rparr> = 28.5"
    using moon_age_eval [where n = "- 1" and q = "- 1" and k = 285]
    by (simp add: toordinal_eval float_29_53059_def)
  show "calculate_moon_age \<lparr>year = 2000, month = 1, day = 6\<rparr> = 0"
    using moon_age_eval [where n = 0 and q = 0 and k = 0]
    by (simp add: toordinal_eval float_29_53059_def)
  show "calculate_moon_age \<lparr>year = 2000, month = 1, day = 7\<rparr> = 1"
    using moon_age_eval [where n = 1 and q = 0 and k = 10]
    by (simp add: toordinal_eval float_29_53059_def)
  show "calculate_moon_age \<lparr>year = 2000, month = 2, day = 5\<rparr> = 0.5"
    using moon_age_eval [where n = 30 and q = 1 and k = 5]
    by (simp add: toordinal_eval float_29_53059_def)
  show "calculate_moon_age \<lparr>year = 1999, month = 12, day = 7\<rparr> = 29.1"
    using moon_age_eval [where n = "- 30" and q = "- 2" and k = 291]
    by (simp add: toordinal_eval float_29_53059_def)
  show "calculate_moon_age \<lparr>year = 3212, month = 10, day = 17\<rparr> = 0.1"
    using moon_age_eval [where n = 442959 and q = 15000 and k = 1]
    by (simp add: toordinal_eval float_29_53059_def)
qed

text \<open>
  Claim C9. For every date, also one before the reference new moon of 2000-01-06,
  \<open>calculate_moon_age\<close> is the number of days since that date modulo 29.53059 (the
  double of that literal, which is within \<open>1 / 2 ^ 49\<close> of the decimal), rounded to one
  decimal place: the day count is a whole multiple of the month plus a remainder from 0
  up to the month, and the result is the multiple of one tenth nearest to the remainder.
  The result lies in the interval from 0 (included) to 29.53059 (excluded). The reference
  date has age 0, the next day 1.0, thirty days later 0.5, thirty days earlier 29.1, and
  3212-10-17 has 0.1.
\<close>

theorem calculate_moon_age_range:
  "(\<exists>q r. rat_of_int (toordinal d - toordinal \<lparr>year = 2000, month = 1, day = 6\<rparr>)
              = of_int q * float_29_53059 + r
          \<and> 0 \<le> r \<and> r < float_29_53059
          \<and> calculate_moon_age d = round_1 r
          \<and> \<bar>calculate_moon_age d - r\<bar> \<le> 1 / 20)
   \<and> (\<exists>k. calculate_moon_age d = of_int k / 10)
   \<and> 0 \<le> calculate_moon_age d \<and> calculate_moon_age d < 29.53059
   \<and> \<bar>float_29_53059 - 29.53059\<bar> < 1 / 2 ^ 49
   \<and> map calculate_moon_age
        [\<lparr>year = 2000, month = 1, day = 6\<rparr>, \<lparr>year = 2000, month = 1, day = 7\<rparr>,
         \<lparr>year = 2000, month = 2, day = 5\<rparr>, \<lparr>year = 1999, month = 12, day = 7\<rparr>,
         \<lparr>year = 3212, month = 10, day = 17\<rparr>]
       = [0, 1, 0.5, 29.1, 0.1]"
proof -
  let ?n = "toordinal d - toordinal \<lparr>year = 2000, month = 1, day = 6\<rparr>"
  let ?r = "float_mod (of_int ?n) float_29_53059"
  have eq: "calculate_moon_age d = round_1 ?r"
    by (simp add: calculate_moon_age_def known_new_moon_def)
  have dec: "rat_of_int ?n = of_int \<lfloor>rat_of_int ?n / float_29_53059\<rfloor> * float_29_53059 + ?r"
    using float_29_53059_pos by (rule float_mod_decompose)
  have rng: "0 \<le> ?r \<and> ?r < float_29_53059"
    using float_29_53059_pos by (rule float_mod_range)
  have near: "\<bar>calculate_moon_age d - ?r\<bar> \<le> 1 / 20"
    unfolding eq by (rule round_1_near)
  from dec rng eq near
  have a: "\<exists>q r. rat_of_int ?n = of_int q * float_29_53059 + r
          \<and> 0 \<le> r \<and> r < float_29_53059
          \<and> calculate_moon_age d = round_1 r
          \<and> \<bar>calculate_moon_age d - r\<bar> \<le> 1 / 20"
    by blast
  have b: "\<exists>k. calculate_moon_age d = of_int k / 10"
    unfolding eq by (rule round_1_tenths)
  from rng float_29_53059_bounds have "0 \<le> ?r \<and> ?r < 29.55" by linarith
  then have "0 \<le> round_1 ?r \<and> round_1 ?r \<le> 29.5" by (intro round_1_range_29) simp_all
  then have c: "0 \<le> calculate_moon_age d \<and> calculate_moon_age d < 29.53059"
    unfolding eq by simp
  have e: "map calculate_moon_age
        [\<lparr>year = 2000, month = 1, day = 6\<rparr>, \<lparr>year = 2000, month = 1, day = 7\<rparr>,
         \<lparr>year = 2000, month = 2, day = 5\<rparr>, \<lparr>year = 1999, month = 12, day = 7\<rparr>,
         \<lparr>year = 3212, month = 10, day = 17\<rparr>]
       = [0, 1, 0.5, 29.1, 0.1]"
    using moon_age_examples by simp
  from a b c float_29_53059_near e show ?thesis by (intro conjI) simp_all
qed

text \<open>
  The day before the reference new moon: the difference is \<open>-1\<close> day and the moon age
  28.5.
\<close>

theorem calculate_moon_age_range_witness:
  "toordinal \<lparr>year = 2000, month = 1, day = 5\<rparr> - toordinal \<lparr>year = 2000, month = 1, day = 6\<rparr> = - 1
   \<and> calculate_moon_age \<lparr>year = 2000, month = 1, day = 5\<rparr> = 28.5
   \<and> 0 \<le> calculate_moon_age \<lparr>year = 2000, month = 1, day = 5\<rparr>
   \<and> calculate_moon_age \<lparr>year = 2000, month = 1, day = 5\<rparr> < 29.53059"
proof -
  let ?d = "\<lparr>year = 2000, month = 1, day = 5\<rparr>"
  have o: "toordinal ?d - toordinal \<lparr>year = 2000, month = 1, day = 6\<rparr> = - 1"
    by (simp add: toordinal_eval)
  note t = calculate_moon_age_range [of ?d]
  from t have "0 \<le> calculate_moon_age ?d \<and> calculate_moon_age ?d < 29.53059"
    by blast
  with o moon_age_examples(1) show ?thesis by blast
qed

subsection \<open>Tide name\<close>

named_theorems label_defs

lemmas tide_label_defs [label_defs] = ooshio_def nakashio_def koshio_def nagashio_wakashio_def

text \<open>
  Claim C1. \<open>get_tide_name\<close> classifies the rounded moon age by membership in the fixed
  buckets: it is the label of the specification's \<open>tidePhase\<close> at the rounded age, and
  on the integers 0 to 31 it is the table below, where 13, 27, 28 and 31 fall back to the
  mid tide and 30 is a spring tide. 29.53059 rounds to 30. The function is total (no
  input raises) and the four labels differ from each other.
\<close>

theorem get_tide_name_buckets:
  "get_tide_name x = tide_label (tidePhase (py_round x))
   \<and> get_tide_name (of_int m) = tide_label (tidePhase m)
   \<and> map (\<lambda>k. get_tide_name (of_int k)) [0, 1, 2, 3, 4, 5, 6, 7, 8, 9, 10, 11, 12, 13, 14, 15,
        16, 17, 18, 19, 20, 21, 22, 23, 24, 25, 26, 27, 28, 29, 30, 31]
      = [ooshio, ooshio, ooshio, nakashio, nakashio, nakashio, koshio, koshio, koshio, koshio,
         nagashio_wakashio, nagashio_wakashio, nagashio_wakashio, nakashio, ooshio, ooshio,
         ooshio, nakashio, nakashio, nakashio, koshio, koshio, koshio, koshio,
         nagashio_wakashio, nagashio_wakashio, nagashio_wakashio, nakashio, nakashio,
         ooshio, ooshio, nakashio]
   \<and> py_round 29.53059 = 30 \<and> get_tide_name 29.53059 = ooshio
   \<and> distinct [ooshio, nakashio, koshio, nagashio_wakashio]"
proof -
  have a: "get_tide_name y = tide_label (tidePhase (py_round y))" for y
    by (simp add: get_tide_name_def tidePhase_def Let_def)
  have b: "get_tide_name (of_int k) = tide_label (tidePhase k)" for k
    by (simp add: a py_round_of_int)
  have c: "py_round 29.53059 = 30"
    by (rule py_round_eqI) simp_all
  have d: "distinct [ooshio, nakashio, koshio, nagashio_wakashio]"
    by (simp add: label_defs)
  have t: "map (\<lambda>k. get_tide_name (of_int k)) [0, 1, 2, 3, 4, 5, 6, 7, 8, 9, 10, 11, 12, 13, 14, 15,
        16, 17, 18, 19, 20, 21, 22, 23, 24, 25, 26, 27, 28, 29, 30, 31]
      = [ooshio, ooshio, ooshio, nakashio, nakashio, nakashio, koshio, koshio, koshio, koshio,
         nagashio_wakashio, nagashio_wakashio, nagashio_wakashio, nakashio, ooshio, ooshio,
         ooshio, nakashio, nakashio, nakashio, koshio, koshio, koshio, koshio,
         nagashio_wakashio, nagashio_wakashio, nagashio_wakashio, nakashio, nakashio,
         ooshio, ooshio, nakashio]"
    by (simp add: b tidePhase_def)
  have f: "get_tide_name 29.53059 = ooshio"
    unfolding a c by (simp add: tidePhase_def)
  from a b c d t f show ?thesis by blast
qed
subsection \<open>Wave status and wind risk\<close>

lemmas wave_label_defs [label_defs] = fumei_def shike_def chuui_def nagi_def

text \<open>
  Claim C7. The wave-status classifier is the label of the specification's \<open>waveStatus\<close>:
  an absent average gives "unknown" (and nothing else does), a value of at least 2.5 gives
  "rough", a value of at least 1.5 and below 2.5 gives "caution", any other value gives
  "calm". The lower bounds are inclusive: 2.5 is rough, 1.5 is caution, 1.49 is calm.
\<close>

theorem get_wave_status_text_thresholds:
  "get_wave_status_text a = wave_label (waveStatus a)
   \<and> (get_wave_status_text a = fumei \<longleftrightarrow> a = None)
   \<and> (get_wave_status_text (Some h) = shike \<longleftrightarrow> 2.5 \<le> h)
   \<and> (get_wave_status_text (Some h) = chuui \<longleftrightarrow> 1.5 \<le> h \<and> h < 2.5)
   \<and> (get_wave_status_text (Some h) = nagi \<longleftrightarrow> h < 1.5)
   \<and> get_wave_status_text (Some 2.5) = shike
   \<and> get_wave_status_text (Some 1.5) = chuui
   \<and> get_wave_status_text (Some 1.49) = nagi
   \<and> get_wave_status_text None = fumei"
proof -
  have d: "distinct [fumei, shike, chuui, nagi]"
    by (simp add: label_defs)
  have r: "get_wave_status_text a = wave_label (waveStatus a)"
    by (cases a) (simp_all add: get_wave_status_text_def waveStatus_def)
  have u: "get_wave_status_text a = fumei \<longleftrightarrow> a = None"
    using d by (cases a) (auto simp: get_wave_status_text_def)
  have s: "get_wave_status_text (Some h) = shike \<longleftrightarrow> 2.5 \<le> h"
    using d by (auto simp: get_wave_status_text_def)
  have c: "get_wave_status_text (Some h) = chuui \<longleftrightarrow> 1.5 \<le> h \<and> h < 2.5"
    using d by (auto simp: get_wave_status_text_def)
  have n: "get_wave_status_text (Some h) = nagi \<longleftrightarrow> h < 1.5"
    using d by (auto simp: get_wave_status_text_def)
  have e: "get_wave_status_text (Some 2.5) = shike" "get_wave_status_text (Some 1.5) = chuui"
    "get_wave_status_text (Some 1.49) = nagi" "get_wave_status_text None = fumei"
    by (simp_all add: get_wave_status_text_def)
  from r u s c n e show ?thesis by blast
qed

text \<open>
  Claim C8. For every wind speed the cell style and the kind of the summary banner follow
  the specification's \<open>windRisk\<close>: the high band (red style, error banner) exactly when
  the speed is at least 10, the moderate band (yellow style, warning banner) exactly when
  it is at least 5 and below 10, the low band (no style, success banner) exactly when it is
  below 5. So 10.0 is high, 9.99 moderate and 4.99 low.
\<close>

theorem wind_risk_bands:
  "highlight_wind (Some v) = risk_style (windRisk v)
   \<and> banner_risk (wind_banner (Some v)) = windRisk v
   \<and> (highlight_wind (Some v) = ''background-color: #ffcccc'' \<longleftrightarrow> 10 \<le> v)
   \<and> (highlight_wind (Some v) = ''background-color: #ffffcc'' \<longleftrightarrow> 5 \<le> v \<and> v < 10)
   \<and> (highlight_wind (Some v) = [] \<longleftrightarrow> v < 5)
   \<and> (wind_banner (Some v) = St_error (kyofu_prefix @ format_1f v @ kyofu_suffix) \<longleftrightarrow> 10 \<le> v)
   \<and> (wind_banner (Some v) = St_warning (kaze_ari_prefix @ format_1f v @ kaze_ari_suffix)
        \<longleftrightarrow> 5 \<le> v \<and> v < 10)
   \<and> (wind_banner (Some v) = St_success odayaka \<longleftrightarrow> v < 5)
   \<and> map (\<lambda>x. windRisk x) [10.0, 9.99, 4.99] = [HIGH, MODERATE, LOW]
   \<and> map (\<lambda>x. highlight_wind (Some x)) [10.0, 9.99, 4.99]
        = [''background-color: #ffcccc'', ''background-color: #ffffcc'', []]
   \<and> map (\<lambda>x. banner_risk (wind_banner (Some x))) [10.0, 9.99, 4.99] = [HIGH, MODERATE, LOW]"
proof -
  have a: "highlight_wind (Some v) = risk_style (windRisk v)"
    by (simp add: highlight_wind_def windRisk_def)
  have b: "banner_risk (wind_banner (Some v)) = windRisk v"
    by (simp add: wind_banner_def windRisk_def)
  have c: "highlight_wind (Some v) = ''background-color: #ffcccc'' \<longleftrightarrow> 10 \<le> v"
    "highlight_wind (Some v) = ''background-color: #ffffcc'' \<longleftrightarrow> 5 \<le> v \<and> v < 10"
    "highlight_wind (Some v) = [] \<longleftrightarrow> v < 5"
    by (auto simp: highlight_wind_def)
  have d: "wind_banner (Some v) = St_error (kyofu_prefix @ format_1f v @ kyofu_suffix) \<longleftrightarrow> 10 \<le> v"
    "wind_banner (Some v) = St_warning (kaze_ari_prefix @ format_1f v @ kaze_ari_suffix)
        \<longleftrightarrow> 5 \<le> v \<and> v < 10"
    "wind_banner (Some v) = St_success odayaka \<longleftrightarrow> v < 5"
    by (auto simp: wind_banner_def)
  have e: "map (\<lambda>x. windRisk x) [10.0, 9.99, 4.99] = [HIGH, MODERATE, LOW]"
    by (simp add: windRisk_def)
  have f: "map (\<lambda>x. highlight_wind (Some x)) [10.0, 9.99, 4.99]
        = [''background-color: #ffcccc'', ''background-color: #ffffcc'', []]"
    by (simp add: highlight_wind_def)
  have g: "map (\<lambda>x. banner_risk (wind_banner (Some x))) [10.0, 9.99, 4.99] = [HIGH, MODERATE, LOW]"
    by (simp add: wind_banner_def)
  from a b c d e f g show ?thesis by blast
qed

subsection \<open>Demand prediction\<close>

lemmas demand_label_defs [label_defs] =
  data_nashi_def tokuni_nashi_def kion_teika_nabe_def ame_def kyakuashi_suffix_def

lemma today_index_loop_absent:
  "today_str \<notin> set ts \<Longrightarrow> today_index_loop k today_str ts = - 1"
  by (induction ts arbitrary: k) auto

lemma today_index_loop_present:
  "today_str \<in> set ts \<Longrightarrow>
   today_index_loop k today_str ts = int (k + length (takeWhile (\<lambda>s. s \<noteq> today_str) ts))"
  by (induction ts arbitrary: k) auto

lemma sentinels_differ: "data_nashi \<noteq> tokuni_nashi"
  by (simp add: label_defs)

text \<open>
  Claim C2 says that a daily series without an entry for today gives the "no data"
  sentinel. The code does not: with the single entry 2024-01-01 and today 2024-01-02 the
  guard \<open>today_index != -1\<close> skips both checks and the result is "nothing notable".
\<close>

theorem no_entry_for_today_counterexample:
  "''2024-01-02'' \<notin> set (daily_time \<lparr>daily_time = [''2024-01-01''],
        temperature_2m_max = [Some 5], precipitation_probability_max = [Some 80]\<rparr>)
   \<and> get_tokyo_demand_prediction ''2024-01-02''
        (Some \<lparr>weather_hourly = [], weather_daily = Some \<lparr>daily_time = [''2024-01-01''],
           temperature_2m_max = [Some 5], precipitation_probability_max = [Some 80]\<rparr>\<rparr>)
       = Inr tokuni_nashi
   \<and> get_tokyo_demand_prediction ''2024-01-02''
        (Some \<lparr>weather_hourly = [], weather_daily = Some \<lparr>daily_time = [''2024-01-01''],
           temperature_2m_max = [Some 5], precipitation_probability_max = [Some 80]\<rparr>\<rparr>)
       \<noteq> Inr data_nashi"
  by (simp add: get_tokyo_demand_prediction_def sentinels_differ [symmetric])

lemma todays_recommendation_shape:
  assumes "todays_recommendation daily_data i = Inr r"
  shows "r = [] \<or> r = [kion_teika_nabe] \<or> (\<exists>p. r = [ame @ show_int p @ kyakuashi_suffix])
         \<or> (\<exists>p. r = [kion_teika_nabe, ame @ show_int p @ kyakuashi_suffix])"
  using assms unfolding todays_recommendation_def Let_def
  by (auto split: sum.splits option.splits if_splits)

lemma join_recommendation_not_data_nashi:
  assumes "todays_recommendation daily_data i = Inr r" and "r \<noteq> []"
  shows "join '' / '' r \<noteq> data_nashi"
proof -
  have k: "hd (kion_teika_nabe @ t) \<noteq> hd data_nashi" for t
    by (simp add: label_defs)
  have a: "hd (ame @ t) \<noteq> hd data_nashi" for t
    by (simp add: label_defs)
  from todays_recommendation_shape [OF assms(1)] assms(2)
  have "hd (join '' / '' r) \<noteq> hd data_nashi"
    using k [of "[]"] k a by (elim disjE exE) simp_all
  then show ?thesis by auto
qed

text \<open>
  Claim C2, amended. For every daily series that contains no entry whose date equals
  today, the demand predictor returns the "nothing notable" sentinel. The "no data"
  sentinel, which differs from it, is returned when the payload is absent or has no daily
  series, and in no other case.
\<close>

theorem no_entry_for_today_nothing_notable:
  "(today_str \<notin> set (daily_time daily_data) \<and> weather_daily w = Some daily_data
      \<longrightarrow> get_tokyo_demand_prediction today_str (Some w) = Inr tokuni_nashi)
   \<and> (weather_daily w = None \<longrightarrow> get_tokyo_demand_prediction today_str (Some w) = Inr data_nashi)
   \<and> get_tokyo_demand_prediction today_str None = Inr data_nashi
   \<and> (get_tokyo_demand_prediction today_str (Some w) = Inr data_nashi \<longrightarrow> weather_daily w = None)
   \<and> data_nashi \<noteq> tokuni_nashi"
proof -
  have a: "get_tokyo_demand_prediction today_str (Some w) = Inr tokuni_nashi"
    if "today_str \<notin> set (daily_time daily_data)" and "weather_daily w = Some daily_data"
    using that by (simp add: get_tokyo_demand_prediction_def today_index_loop_absent)
  have b: "get_tokyo_demand_prediction today_str (Some w) = Inr data_nashi"
    if "weather_daily w = None"
    using that by (simp add: get_tokyo_demand_prediction_def)
  have c: "get_tokyo_demand_prediction today_str None = Inr data_nashi"
    by (simp add: get_tokyo_demand_prediction_def)
  have d: "weather_daily w = None"
    if r: "get_tokyo_demand_prediction today_str (Some w) = Inr data_nashi"
  proof (rule ccontr)
    assume "weather_daily w \<noteq> None"
    then obtain dd where dd: "weather_daily w = Some dd" by auto
    let ?i = "today_index_loop 0 today_str (daily_time dd)"
    show False
    proof (cases "?i = - 1")
      case True
      with r dd sentinels_differ show False
        by (auto simp: get_tokyo_demand_prediction_def)
    next
      case False
      show False
      proof (cases "todays_recommendation dd (nat ?i)")
        case (Inl e)
        with r dd False show False
          by (simp add: get_tokyo_demand_prediction_def)
      next
        case (Inr rec)
        show False
        proof (cases "rec = []")
          case True
          with r dd False Inr sentinels_differ show False
            by (auto simp: get_tokyo_demand_prediction_def)
        next
          case nonempty: False
          with r dd False Inr have "join '' / '' rec = data_nashi"
            by (simp add: get_tokyo_demand_prediction_def)
          with join_recommendation_not_data_nashi [OF Inr nonempty] show False by simp
        qed
      qed
    qed
  qed
  from a b c d sentinels_differ show ?thesis by blast
qed

theorem no_entry_for_today_nothing_notable_witness:
  "''2024-01-02'' \<notin> set [''2024-01-01'', ''2024-01-03'']
   \<and> get_tokyo_demand_prediction ''2024-01-02''
        (Some \<lparr>weather_hourly = [], weather_daily = Some \<lparr>daily_time = [''2024-01-01'', ''2024-01-03''],
           temperature_2m_max = [Some 5, Some 4], precipitation_probability_max = [Some 80, Some 90]\<rparr>\<rparr>)
       = Inr tokuni_nashi
   \<and> get_tokyo_demand_prediction ''2024-01-02'' (Some \<lparr>weather_hourly = [], weather_daily = None\<rparr>)
       = Inr data_nashi"
  using no_entry_for_today_nothing_notable [where today_str = "''2024-01-02''"
      and daily_data = "\<lparr>daily_time = [''2024-01-01'', ''2024-01-03''],
        temperature_2m_max = [Some 5, Some 4], precipitation_probability_max = [Some 80, Some 90]\<rparr>"
      and w = "\<lparr>weather_hourly = [], weather_daily = Some \<lparr>daily_time = [''2024-01-01'', ''2024-01-03''],
           temperature_2m_max = [Some 5, Some 4], precipitation_probability_max = [Some 80, Some 90]\<rparr>\<rparr>"]
    no_entry_for_today_nothing_notable [where today_str = "''2024-01-02''"
      and w = "\<lparr>weather_hourly = [], weather_daily = None\<rparr>"]
  by simp

lemma digit_char_value:
  assumes "n < 10"
  shows "of_char (''0123456789'' ! n) = 48 + n" and "''0123456789'' ! n \<in> set ''0123456789''"
proof -
  have codes: "map of_char ''0123456789'' = map (\<lambda>k. 48 + k) [0..<10 :: nat]"
    by (simp add: upt_rec)
  from assms have "of_char (''0123456789'' ! n) = map of_char ''0123456789'' ! n"
    by (simp del: list.map)
  also from assms have "\<dots> = 48 + n"
    unfolding codes by (simp del: upt_Suc)
  finally show "of_char (''0123456789'' ! n) = 48 + n" .
  from assms show "''0123456789'' ! n \<in> set ''0123456789''"
    by (intro nth_mem) simp
qed

lemma decimal_value_snoc: "decimal_value (s @ [c]) = 10 * decimal_value s + (of_char c - 48)"
  by (simp add: decimal_value_def)

lemma decimal_value_show_nat: "decimal_value (show_nat n) = n"
proof (induction n rule: show_nat.induct)
  case (1 n)
  show ?case
  proof (cases "n < 10")
    case True
    then show ?thesis
      by (subst show_nat.simps) (simp add: decimal_value_def digit_char_value(1))
  next
    case False
    then have ih: "decimal_value (show_nat (n div 10)) = n div 10"
      by (rule "1.IH")
    have "n mod 10 < 10" by simp
    then have d: "of_char (''0123456789'' ! (n mod 10)) = 48 + n mod 10"
      by (rule digit_char_value(1))
    from False have "show_nat n = show_nat (n div 10) @ [''0123456789'' ! (n mod 10)]"
      by (subst show_nat.simps) simp
    then show ?thesis
      by (simp only: decimal_value_snoc ih d) simp
  qed
qed

lemma show_nat_digits: "set (show_nat n) \<subseteq> set ''0123456789''"
proof (induction n rule: show_nat.induct)
  case (1 n)
  show ?case
  proof (cases "n < 10")
    case True
    then have "show_nat n = [''0123456789'' ! n]" by (subst show_nat.simps) simp
    with digit_char_value(2) [OF True] show ?thesis by simp
  next
    case False
    then have ih: "set (show_nat (n div 10)) \<subseteq> set ''0123456789''"
      by (rule "1.IH")
    have "n mod 10 < 10" by simp
    then have d: "''0123456789'' ! (n mod 10) \<in> set ''0123456789''"
      by (rule digit_char_value(2))
    from False have "show_nat n = show_nat (n div 10) @ [''0123456789'' ! (n mod 10)]"
      by (subst show_nat.simps) simp
    with ih d show ?thesis by simp
  qed
qed

lemma show_int_examples:
  "map show_int [50, 60, 85, 100] = [''50'', ''60'', ''85'', ''100'']"
  by (simp add: show_int_def show_nat.simps)


text \<open>
  Claim C6. When the daily series has an entry for today, and today's maximum temperature
  and precipitation probability are numbers, the advisory holds "temperature drop (hot
  pot)" exactly when the temperature is below 10 and the rain reason with the percentage
  exactly when the probability is at least 50, the temperature reason first and \<open>" / "\<close>
  between the two; it is "nothing notable" when neither holds. The entry for today is the
  first one with today's date. The percentage is printed in decimal digits: the digits
  denote the probability, and 50, 60, 85 and 100 print as themselves.
\<close>

theorem demand_reasons_in_order:
  assumes "weather_daily w = Some daily_data"
    and "today_str \<in> set (daily_time daily_data)"
    and "i = length (takeWhile (\<lambda>s. s \<noteq> today_str) (daily_time daily_data))"
    and "index (temperature_2m_max daily_data) i = Inr (Some temp)"
    and "index (precipitation_probability_max daily_data) i = Inr (Some p)"
  shows "get_tokyo_demand_prediction today_str (Some w) =
     Inr (if temp < 10 \<and> 50 \<le> p
            then kion_teika_nabe @ '' / '' @ ame @ show_int p @ kyakuashi_suffix
          else if temp < 10 then kion_teika_nabe
          else if 50 \<le> p then ame @ show_int p @ kyakuashi_suffix
          else tokuni_nashi)
     \<and> (0 \<le> p \<longrightarrow> decimal_value (show_int p) = nat p \<and> set (show_int p) \<subseteq> set ''0123456789'')
     \<and> map show_int [50, 60, 85, 100] = [''50'', ''60'', ''85'', ''100'']"
proof -
  have ix: "today_index_loop 0 today_str (daily_time daily_data) = int i"
    using assms(2,3) by (simp add: today_index_loop_present)
  have "todays_recommendation daily_data i =
      Inr ((if temp < 10 then [kion_teika_nabe] else [])
           @ (if 50 \<le> p then [ame @ show_int p @ kyakuashi_suffix] else []))"
    using assms(4,5) by (simp add: todays_recommendation_def)
  with ix assms(1) have a: "get_tokyo_demand_prediction today_str (Some w) =
     Inr (if temp < 10 \<and> 50 \<le> p
            then kion_teika_nabe @ '' / '' @ ame @ show_int p @ kyakuashi_suffix
          else if temp < 10 then kion_teika_nabe
          else if 50 \<le> p then ame @ show_int p @ kyakuashi_suffix
          else tokuni_nashi)"
    by (simp add: get_tokyo_demand_prediction_def)
  have b: "decimal_value (show_int p) = nat p \<and> set (show_int p) \<subseteq> set ''0123456789''"
    if "0 \<le> p"
    using that decimal_value_show_nat [of "nat p"] show_nat_digits [of "nat p"]
    by (simp add: show_int_def)
  from a b show_int_examples show ?thesis by blast
qed

text \<open>
  A maximum of 9 degrees and 60 percent give both reasons in that order, 3 degrees and 100
  percent do so with "100", 12 degrees and 85 percent give the rain reason alone, and 15
  degrees and 10 percent give "nothing notable".
\<close>

theorem demand_reasons_in_order_witness:
  "get_tokyo_demand_prediction ''2024-01-02''
     (Some \<lparr>weather_hourly = [], weather_daily = Some
        \<lparr>daily_time = [''2024-01-01'', ''2024-01-02'', ''2024-01-03''],
         temperature_2m_max = [Some 15, Some 9, Some 3],
         precipitation_probability_max = [Some 10, Some 60, Some 100]\<rparr>\<rparr>)
     = Inr (kion_teika_nabe @ '' / '' @ ame @ ''60'' @ kyakuashi_suffix)
   \<and> get_tokyo_demand_prediction ''2024-01-03''
     (Some \<lparr>weather_hourly = [], weather_daily = Some
        \<lparr>daily_time = [''2024-01-01'', ''2024-01-02'', ''2024-01-03''],
         temperature_2m_max = [Some 15, Some 9, Some 3],
         precipitation_probability_max = [Some 10, Some 60, Some 100]\<rparr>\<rparr>)
     = Inr (kion_teika_nabe @ '' / '' @ ame @ ''100'' @ kyakuashi_suffix)
   \<and> get_tokyo_demand_prediction ''2024-01-01''
     (Some \<lparr>weather_hourly = [], weather_daily = Some
        \<lparr>daily_time = [''2024-01-01'', ''2024-01-02'', ''2024-01-03''],
         temperature_2m_max = [Some 15, Some 9, Some 3],
         precipitation_probability_max = [Some 10, Some 60, Some 100]\<rparr>\<rparr>)
     = Inr tokuni_nashi
   \<and> get_tokyo_demand_prediction ''2024-01-02''
     (Some \<lparr>weather_hourly = [], weather_daily = Some
        \<lparr>daily_time = [''2024-01-01'', ''2024-01-02''],
         temperature_2m_max = [Some 15, Some 12],
         precipitation_probability_max = [Some 10, Some 85]\<rparr>\<rparr>)
     = Inr (ame @ ''85'' @ kyakuashi_suffix)
   \<and> decimal_value (show_int 60) = 60"
proof -
  let ?d = "\<lparr>daily_time = [''2024-01-01'', ''2024-01-02'', ''2024-01-03''],
         temperature_2m_max = [Some 15, Some 9, Some 3],
         precipitation_probability_max = [Some 10, Some 60, Some 100]\<rparr>"
  let ?w = "\<lparr>weather_hourly = [], weather_daily = Some ?d\<rparr>"
  let ?e = "\<lparr>daily_time = [''2024-01-01'', ''2024-01-02''],
         temperature_2m_max = [Some 15, Some 12],
         precipitation_probability_max = [Some 10, Some 85]\<rparr>"
  let ?v = "\<lparr>weather_hourly = [], weather_daily = Some ?e\<rparr>"
  have s: "show_int 60 = ''60''" "show_int 100 = ''100''" "show_int 85 = ''85''"
    by (simp_all add: show_int_def show_nat.simps)
  have h1: "weather_daily ?w = Some ?d"
    by simp
  have h2: "''2024-01-02'' \<in> set (daily_time ?d)"
    by simp
  have h3: "1 = length (takeWhile (\<lambda>s. s \<noteq> ''2024-01-02'') (daily_time ?d))"
    by simp
  have h4: "index (temperature_2m_max ?d) 1 = Inr (Some 9)"
    by (simp add: index_def)
  have h5: "index (precipitation_probability_max ?d) 1 = Inr (Some 60)"
    by (simp add: index_def)
  note t1 = demand_reasons_in_order [OF h1 h2 h3 h4 h5]
  from t1 have a: "get_tokyo_demand_prediction ''2024-01-02'' (Some ?w)
     = Inr (kion_teika_nabe @ '' / '' @ ame @ ''60'' @ kyakuashi_suffix)"
    by (simp add: s)
  from t1 have "0 \<le> (60 :: int) \<longrightarrow>
      decimal_value (show_int 60) = nat 60 \<and> set (show_int 60) \<subseteq> set ''0123456789''"
    by (rule conjunct1 [OF conjunct2])
  then have a': "decimal_value (show_int 60) = 60"
    by simp
  have b: "get_tokyo_demand_prediction ''2024-01-03'' (Some ?w)
     = Inr (kion_teika_nabe @ '' / '' @ ame @ ''100'' @ kyakuashi_suffix)"
    using demand_reasons_in_order [where w = ?w and daily_data = ?d
        and today_str = "''2024-01-03''" and i = 2 and temp = 3 and p = 100]
    by (simp add: index_def s)
  have c: "get_tokyo_demand_prediction ''2024-01-01'' (Some ?w) = Inr tokuni_nashi"
    using demand_reasons_in_order [where w = ?w and daily_data = ?d
        and today_str = "''2024-01-01''" and i = 0 and temp = 15 and p = 10]
    by (simp add: index_def)
  have d: "get_tokyo_demand_prediction ''2024-01-02'' (Some ?v) = Inr (ame @ ''85'' @ kyakuashi_suffix)"
    using demand_reasons_in_order [where w = ?v and daily_data = ?e
        and today_str = "''2024-01-02''" and i = 1 and temp = 12 and p = 85]
    by (simp add: index_def s)
  from a b c d a' show ?thesis by (intro conjI)
qed

subsection \<open>The sea-state matrix\<close>

lemmas matrix_label_defs [label_defs] = getsurei_def shutoku_shippai_def

lemma set_current_day_indices:
  "set (current_day_indices time d) = {j. j < length time \<and> dt_date (time ! j) = d}"
  by (auto simp: current_day_indices_def)

lemma daily_waves_in_range:
  "\<forall>j\<in>set idx. j < length heights \<Longrightarrow>
   daily_waves heights idx = Inr (List.map_filter (\<lambda>j. heights ! j) idx)"
  by (induction idx) (auto simp: index_def split: option.splits)

lemma map_filter_all_None:
  "\<forall>j\<in>set idx. f j = None \<Longrightarrow> List.map_filter f idx = []"
  by (induction idx) auto

lemma degraded_cells_differ: "distinct [data_nashi, ''-'', shutoku_shippai]"
  by (simp add: label_defs)

lemma cell_text_AvgWave_last: "last (cell_text d (AvgWave a)) = CHR '')''"
  by (simp add: cell_text_def Let_def)

lemma cell_text_AvgWave_not_degraded:
  "cell_text d (AvgWave a) \<notin> set [data_nashi, ''-'', shutoku_shippai]"
proof -
  have "last data_nashi \<noteq> CHR '')''" "last ''-'' \<noteq> CHR '')''" "last shutoku_shippai \<noteq> CHR '')''"
    by (simp_all add: label_defs)
  with cell_text_AvgWave_last [of d a] show ?thesis by auto
qed

lemma cells_fetch_failed: "map (\<lambda>d. shutoku_shippai) dates = replicate (length dates) shutoku_shippai"
  by (induction dates) auto

lemma cells_Inr_iff:
  "cells h dates = Inr cs \<longleftrightarrow> list_all2 (\<lambda>d c. day_cell h d = Inr c) dates cs"
proof (induction dates arbitrary: cs)
  case Nil
  show ?case by auto
next
  case (Cons d ds)
  show ?case
  proof (cases "day_cell h d")
    case (Inl e)
    then show ?thesis by (auto simp: list_all2_Cons1)
  next
    case c: (Inr c)
    show ?thesis
    proof (cases "cells h ds")
      case (Inl e)
      with c Cons.IH show ?thesis by (auto simp: list_all2_Cons1)
    next
      case (Inr cs')
      with c Cons.IH show ?thesis by (auto simp: list_all2_Cons1)
    qed
  qed
qed

lemma day_cell_average_example:
  "day_cell
     \<lparr>hourly_time =
        [\<lparr>dt_date = \<lparr>year = 2000, month = 1, day = 7\<rparr>, dt_hour = 0, dt_minute = 0\<rparr>,
         \<lparr>dt_date = \<lparr>year = 2000, month = 1, day = 7\<rparr>, dt_hour = 1, dt_minute = 0\<rparr>,
         \<lparr>dt_date = \<lparr>year = 2000, month = 1, day = 7\<rparr>, dt_hour = 2, dt_minute = 0\<rparr>,
         \<lparr>dt_date = \<lparr>year = 2000, month = 1, day = 7\<rparr>, dt_hour = 3, dt_minute = 0\<rparr>,
         \<lparr>dt_date = \<lparr>year = 2000, month = 1, day = 8\<rparr>, dt_hour = 0, dt_minute = 0\<rparr>],
      wave_height = [Some 1.0, Some 2.0, None, Some 3.0, None]\<rparr>
     \<lparr>year = 2000, month = 1, day = 7\<rparr>
   = Inr (chuui @ '' 2.0m ('' @ ooshio @ '', '' @ getsurei @ ''1.0)'')"
proof -
  let ?d = "\<lparr>year = 2000, month = 1, day = 7\<rparr>"
  let ?h = "\<lparr>hourly_time =
        [\<lparr>dt_date = ?d, dt_hour = 0, dt_minute = 0\<rparr>,
         \<lparr>dt_date = ?d, dt_hour = 1, dt_minute = 0\<rparr>,
         \<lparr>dt_date = ?d, dt_hour = 2, dt_minute = 0\<rparr>,
         \<lparr>dt_date = ?d, dt_hour = 3, dt_minute = 0\<rparr>,
         \<lparr>dt_date = \<lparr>year = 2000, month = 1, day = 8\<rparr>, dt_hour = 0, dt_minute = 0\<rparr>],
      wave_height = [Some 1.0, Some 2.0, None, Some 3.0, None]\<rparr>"
  have idx: "current_day_indices (hourly_time ?h) ?d = [0, 1, 2, 3]"
    by (simp add: current_day_indices_def upt_rec)
  have ws: "daily_waves (wave_height ?h) [0, 1, 2, 3] = Inr [1.0, 2.0, 3.0]"
    by (simp add: index_def)
  have avg: "day_avg_wave ?h ?d = Inr (AvgWave 2)"
    unfolding day_avg_wave_def Let_def idx ws by (simp add: mean_def)
  have tide: "get_tide_name 1 = ooshio"
    using py_round_of_int [of 1] by (simp add: get_tide_name_def)
  have status: "get_wave_status_text (Some 2) = chuui"
    by (simp add: get_wave_status_text_def)
  have "cell_text ?d (AvgWave 2) = chuui @ '' 2.0m ('' @ ooshio @ '', '' @ getsurei @ ''1.0)''"
    by (simp add: cell_text_def Let_def moon_age_examples tide status format_1f_examples)
  with avg show ?thesis
    by (simp add: day_cell_def)
qed


text \<open>
  Claim C4. The three degraded states of a cell stay apart in the rows. A date whose
  samples all have a null wave height gives the "no data" cell; a date without any sample
  gives the "no coverage" cell \<open>-\<close>; an absent payload, or one without its hourly block,
  gives "fetch failed" for every date of the row. A row of a payload with its hourly block
  holds, date by date, exactly the cell of that date. The three texts differ from each
  other, and the text of a cell with an average differs from all three.
\<close>

theorem degraded_cells_distinct:
  "((\<exists>j<length (hourly_time h). dt_date (hourly_time h ! j) = d)
      \<and> (\<forall>j<length (hourly_time h). dt_date (hourly_time h ! j) = d
            \<longrightarrow> j < length (wave_height h) \<and> wave_height h ! j = None)
     \<longrightarrow> day_cell h d = Inr data_nashi)
   \<and> ((\<forall>j<length (hourly_time h). dt_date (hourly_time h ! j) \<noteq> d) \<longrightarrow> day_cell h d = Inr ''-'')
   \<and> matrix_row None dates = Inr (replicate (length dates) shutoku_shippai)
   \<and> (marine_hourly m = None
        \<longrightarrow> matrix_row (Some m) dates = Inr (replicate (length dates) shutoku_shippai))
   \<and> (marine_hourly m = Some h
        \<longrightarrow> (matrix_row (Some m) dates = Inr cs
              \<longleftrightarrow> list_all2 (\<lambda>d c. day_cell h d = Inr c) dates cs))
   \<and> distinct [data_nashi, ''-'', shutoku_shippai]
   \<and> cell_text d (AvgWave a) \<notin> set [data_nashi, ''-'', shutoku_shippai]"
proof -
  let ?idx = "current_day_indices (hourly_time h) d"
  have nodata: "day_cell h d = Inr data_nashi"
    if ex: "\<exists>j<length (hourly_time h). dt_date (hourly_time h ! j) = d"
      and nulls: "\<forall>j<length (hourly_time h). dt_date (hourly_time h ! j) = d
            \<longrightarrow> j < length (wave_height h) \<and> wave_height h ! j = None"
  proof -
    from ex obtain j where "j < length (hourly_time h)" and "dt_date (hourly_time h ! j) = d"
      by blast
    then have "j \<in> set ?idx"
      by (simp add: set_current_day_indices)
    then have ne: "?idx \<noteq> []"
      by (cases ?idx) simp_all
    from nulls have rng: "\<forall>j\<in>set ?idx. j < length (wave_height h)"
      and non: "\<forall>j\<in>set ?idx. wave_height h ! j = None"
      by (simp_all add: set_current_day_indices)
    have "daily_waves (wave_height h) ?idx = Inr []"
      using daily_waves_in_range [OF rng] map_filter_all_None [OF non] by simp
    with ne show ?thesis
      by (simp add: day_cell_def day_avg_wave_def cell_text_def)
  qed
  have nocov: "day_cell h d = Inr ''-''"
    if "\<forall>j<length (hourly_time h). dt_date (hourly_time h ! j) \<noteq> d"
  proof -
    from that have "set ?idx = {}" by (auto simp: set_current_day_indices)
    then have "?idx = []" by simp
    then show ?thesis by (simp add: day_cell_def day_avg_wave_def cell_text_def)
  qed
  have f1: "matrix_row None dates = Inr (replicate (length dates) shutoku_shippai)"
    by (simp add: matrix_row_def cells_fetch_failed)
  have f2: "matrix_row (Some m) dates = Inr (replicate (length dates) shutoku_shippai)"
    if "marine_hourly m = None"
    using that by (simp add: matrix_row_def cells_fetch_failed)
  have row: "matrix_row (Some m) dates = Inr cs
      \<longleftrightarrow> list_all2 (\<lambda>d c. day_cell h d = Inr c) dates cs"
    if "marine_hourly m = Some h"
    using that by (simp add: matrix_row_def cells_Inr_iff)
  from nodata nocov f1 f2 row degraded_cells_differ cell_text_AvgWave_not_degraded [of d a]
  show ?thesis by blast
qed


text \<open>
  One row over three dates: four samples on 2000-01-07 (1.0, 2.0, null, 3.0), one null
  sample on 2000-01-08 and none on 2000-01-09 give the cell of the average, "no data" and
  "no coverage"; a payload without hourly block gives "fetch failed" three times.
\<close>

theorem degraded_cells_distinct_witness:
  "matrix_row
     (Some \<lparr>marine_hourly = Some
        \<lparr>hourly_time =
           [\<lparr>dt_date = \<lparr>year = 2000, month = 1, day = 7\<rparr>, dt_hour = 0, dt_minute = 0\<rparr>,
            \<lparr>dt_date = \<lparr>year = 2000, month = 1, day = 7\<rparr>, dt_hour = 1, dt_minute = 0\<rparr>,
            \<lparr>dt_date = \<lparr>year = 2000, month = 1, day = 7\<rparr>, dt_hour = 2, dt_minute = 0\<rparr>,
            \<lparr>dt_date = \<lparr>year = 2000, month = 1, day = 7\<rparr>, dt_hour = 3, dt_minute = 0\<rparr>,
            \<lparr>dt_date = \<lparr>year = 2000, month = 1, day = 8\<rparr>, dt_hour = 0, dt_minute = 0\<rparr>],
         wave_height = [Some 1.0, Some 2.0, None, Some 3.0, None]\<rparr>\<rparr>)
     [\<lparr>year = 2000, month = 1, day = 7\<rparr>, \<lparr>year = 2000, month = 1, day = 8\<rparr>,
      \<lparr>year = 2000, month = 1, day = 9\<rparr>]
   = Inr [chuui @ '' 2.0m ('' @ ooshio @ '', '' @ getsurei @ ''1.0)'', data_nashi, ''-'']
   \<and> matrix_row (Some \<lparr>marine_hourly = None\<rparr>)
        [\<lparr>year = 2000, month = 1, day = 7\<rparr>, \<lparr>year = 2000, month = 1, day = 8\<rparr>,
         \<lparr>year = 2000, month = 1, day = 9\<rparr>]
       = Inr [shutoku_shippai, shutoku_shippai, shutoku_shippai]"
proof -
  let ?d1 = "\<lparr>year = 2000, month = 1, day = 7\<rparr>"
  let ?d2 = "\<lparr>year = 2000, month = 1, day = 8\<rparr>"
  let ?d3 = "\<lparr>year = 2000, month = 1, day = 9\<rparr>"
  let ?h = "\<lparr>hourly_time =
           [\<lparr>dt_date = ?d1, dt_hour = 0, dt_minute = 0\<rparr>,
            \<lparr>dt_date = ?d1, dt_hour = 1, dt_minute = 0\<rparr>,
            \<lparr>dt_date = ?d1, dt_hour = 2, dt_minute = 0\<rparr>,
            \<lparr>dt_date = ?d1, dt_hour = 3, dt_minute = 0\<rparr>,
            \<lparr>dt_date = ?d2, dt_hour = 0, dt_minute = 0\<rparr>],
         wave_height = [Some 1.0, Some 2.0, None, Some 3.0, None]\<rparr>"
  let ?m = "\<lparr>marine_hourly = Some ?h\<rparr>"
  let ?f = "\<lparr>marine_hourly = None\<rparr>"
  let ?cs = "[chuui @ '' 2.0m ('' @ ooshio @ '', '' @ getsurei @ ''1.0)'', data_nashi, ''-'']"
  note t2 = degraded_cells_distinct [where h = ?h and d = ?d2]
  note t3 = degraded_cells_distinct [where h = ?h and d = ?d3]
  note tf = degraded_cells_distinct [where m = ?f and dates = "[?d1, ?d2, ?d3]"]
  note tr = degraded_cells_distinct [where m = ?m and h = ?h and dates = "[?d1, ?d2, ?d3]"
      and cs = ?cs]
  have len: "length (hourly_time ?h) = Suc (Suc (Suc (Suc (Suc 0))))"
    by simp
  have ex: "\<exists>j<length (hourly_time ?h). dt_date (hourly_time ?h ! j) = ?d2"
    by (rule exI [of _ 4]) simp
  have nulls: "\<forall>j<length (hourly_time ?h). dt_date (hourly_time ?h ! j) = ?d2
            \<longrightarrow> j < length (wave_height ?h) \<and> wave_height ?h ! j = None"
    unfolding len by (simp add: All_less_Suc)
  have none: "\<forall>j<length (hourly_time ?h). dt_date (hourly_time ?h ! j) \<noteq> ?d3"
    unfolding len by (simp add: All_less_Suc)
  have c1: "day_cell ?h ?d1 = Inr (chuui @ '' 2.0m ('' @ ooshio @ '', '' @ getsurei @ ''1.0)'')"
    by (rule day_cell_average_example)
  have c2: "day_cell ?h ?d2 = Inr data_nashi"
    by (rule mp [OF t2 [THEN conjunct1]]) (rule conjI [OF ex nulls])
  have c3: "day_cell ?h ?d3 = Inr ''-''"
    by (rule mp [OF t3 [THEN conjunct2, THEN conjunct1] none])
  have "matrix_row (Some ?m) [?d1, ?d2, ?d3] = Inr ?cs
      \<longleftrightarrow> list_all2 (\<lambda>d c. day_cell ?h d = Inr c) [?d1, ?d2, ?d3] ?cs"
    by (rule mp [OF tr [THEN conjunct2, THEN conjunct2, THEN conjunct2, THEN conjunct2,
          THEN conjunct1]]) simp
  moreover have "list_all2 (\<lambda>d c. day_cell ?h d = Inr c) [?d1, ?d2, ?d3] ?cs"
    using c1 c2 c3 by (simp only: list_all2_Cons list_all2_Nil simp_thms)
  ultimately have row: "matrix_row (Some ?m) [?d1, ?d2, ?d3] = Inr ?cs"
    by (rule iffD2)
  have "matrix_row (Some ?f) [?d1, ?d2, ?d3]
      = Inr (replicate (length [?d1, ?d2, ?d3]) shutoku_shippai)"
    by (rule mp [OF tf [THEN conjunct2, THEN conjunct2, THEN conjunct2, THEN conjunct1]]) simp
  then have fail: "matrix_row (Some ?f) [?d1, ?d2, ?d3]
      = Inr [shutoku_shippai, shutoku_shippai, shutoku_shippai]"
    by (simp add: numeral_3_eq_3)
  from row fail show ?thesis by (intro conjI)
qed

text \<open>
  Claim C5. For the samples of one date, the average is the sum of the wave heights that
  are present divided by their number: a null sample is left out of the sum and of the
  divisor. (Every sample of the date has a cell in the wave-height column.)
\<close>

theorem avg_wave_over_present_values:
  assumes "\<forall>j<length (hourly_time h). dt_date (hourly_time h ! j) = d \<longrightarrow> j < length (wave_height h)"
  shows "day_avg_wave h d =
     Inr (let idx = current_day_indices (hourly_time h) d;
              ws = List.map_filter (\<lambda>j. wave_height h ! j) idx
          in if idx = [] then NoSamples
             else if ws = [] then NoValues
             else AvgWave (sum_list ws / of_nat (length ws)))"
proof -
  let ?idx = "current_day_indices (hourly_time h) d"
  from assms have "\<forall>j\<in>set ?idx. j < length (wave_height h)"
    by (simp add: set_current_day_indices)
  then have "daily_waves (wave_height h) ?idx = Inr (List.map_filter (\<lambda>j. wave_height h ! j) ?idx)"
    by (rule daily_waves_in_range)
  then show ?thesis
    by (simp add: day_avg_wave_def mean_def Let_def)
qed

text \<open>The wave heights 1.0, 2.0, null and 3.0 of one date average to 2.0.\<close>

theorem avg_wave_over_present_values_witness:
  "day_avg_wave
     \<lparr>hourly_time = [\<lparr>dt_date = \<lparr>year = 2024, month = 3, day = 10\<rparr>, dt_hour = 0, dt_minute = 0\<rparr>,
                     \<lparr>dt_date = \<lparr>year = 2024, month = 3, day = 10\<rparr>, dt_hour = 1, dt_minute = 0\<rparr>,
                     \<lparr>dt_date = \<lparr>year = 2024, month = 3, day = 10\<rparr>, dt_hour = 2, dt_minute = 0\<rparr>,
                     \<lparr>dt_date = \<lparr>year = 2024, month = 3, day = 10\<rparr>, dt_hour = 3, dt_minute = 0\<rparr>],
      wave_height = [Some 1.0, Some 2.0, None, Some 3.0]\<rparr>
     \<lparr>year = 2024, month = 3, day = 10\<rparr> = Inr (AvgWave 2.0)"
proof -
  let ?d = "\<lparr>year = 2024, month = 3, day = 10\<rparr>"
  let ?h = "\<lparr>hourly_time = [\<lparr>dt_date = ?d, dt_hour = 0, dt_minute = 0\<rparr>,
                     \<lparr>dt_date = ?d, dt_hour = 1, dt_minute = 0\<rparr>,
                     \<lparr>dt_date = ?d, dt_hour = 2, dt_minute = 0\<rparr>,
                     \<lparr>dt_date = ?d, dt_hour = 3, dt_minute = 0\<rparr>],
      wave_height = [Some 1.0, Some 2.0, None, Some 3.0]\<rparr>"
  have rng: "\<forall>j<length (hourly_time ?h). dt_date (hourly_time ?h ! j) = ?d
      \<longrightarrow> j < length (wave_height ?h)"
    by simp
  have idx: "current_day_indices (hourly_time ?h) ?d = [0, 1, 2, 3]"
    by (simp add: current_day_indices_def upt_rec)
  have ws: "List.map_filter (\<lambda>j. wave_height ?h ! j) [0, 1, 2, 3] = [1.0, 2.0, 3.0]"
    by simp
  note t = avg_wave_over_present_values [where h = ?h and d = ?d, OF rng]
  show ?thesis
    unfolding t Let_def idx ws by simp
qed

subsection \<open>Wind forecast\<close>

lemmas banner_label_defs [label_defs] =
  kyofu_prefix_def kyofu_suffix_def kaze_ari_prefix_def kaze_ari_suffix_def odayaka_def


















end
